theory Spec2Isabelle
  imports
    Complex_Main
    "HOL-Library.Word"
    "HOL-Library.Char_ord"
    "HOL-Library.List_Lexorder"
    "HOL-Library.AList"
    "HOL-Library.Multiset"
begin

unbundle bit_operations_syntax

section \<open>DoomSat telemetry hook (hook.py)\<close>

text \<open>
  A shallow embedding of the telemetry part of \<^verbatim>\<open>hook.py\<close>: the class \<^verbatim>\<open>T0\<close>
  (delta tracker, JSON line sink, binary frame sink), the step loops of
  \<^verbatim>\<open>run_episode\<close> and \<^verbatim>\<open>play_manual\<close>, and the episode summary.

  Python integers are \<open>int\<close>. Bytes are \<open>8 word\<close>. A dict is an association list in
  insertion order, written with \<open>AList.update\<close> (an existing key keeps its place and takes
  the new value, a new key goes to the end), as Python's dict does. The simulation engine,
  the clock and the random generator are outside the program: what the program reads from
  them is an argument of the model.
\<close>

subsection \<open>Utilities\<close>

text \<open>\<^verbatim>\<open>def clamp(v, lo, hi): return lo if v < lo else hi if v > hi else v\<close>\<close>

definition clamp :: "int \<Rightarrow> int \<Rightarrow> int \<Rightarrow> int" where
  "clamp v lo hi = (if v < lo then lo else if v > hi then hi else v)"

text \<open>The weapon tables; \<open>None\<close> is a missing key.\<close>

definition NOMINAL_DMG :: "int \<Rightarrow> int option" where
  "NOMINAL_DMG slot =
     (if slot = 2 then Some 10 else if slot = 3 then Some 35 else if slot = 4 then Some 12
      else if slot = 5 then Some 100 else if slot = 6 then Some 20
      else if slot = 7 then Some 250 else None)"

definition SLOT2NAME :: "int \<Rightarrow> string option" where
  "SLOT2NAME slot =
     (if slot = 2 then Some ''PISTOL'' else if slot = 3 then Some ''SHOTGUN''
      else if slot = 4 then Some ''CHAINGUN'' else if slot = 5 then Some ''ROCKET''
      else if slot = 6 then Some ''PLASMA'' else if slot = 7 then Some ''BFG'' else None)"

text \<open>\<^verbatim>\<open>d.get(k, default)\<close>\<close>

definition get_or :: "'v option \<Rightarrow> 'v \<Rightarrow> 'v" where
  "get_or r d = (case r of None \<Rightarrow> d | Some v \<Rightarrow> v)"

subsection \<open>JSON values and \<^verbatim>\<open>json.dumps\<close>\<close>

text \<open>
  The values the program serialises: integers, floats, strings and dicts with string keys.
  A float is carried as the text \<^verbatim>\<open>json.dumps\<close> writes for it: what \<^verbatim>\<open>float.__repr__\<close>
  gives for a finite float, and \<^verbatim>\<open>Infinity\<close>, \<^verbatim>\<open>-Infinity\<close> or \<^verbatim>\<open>NaN\<close> for the others.
  Floating-point arithmetic itself is outside the embedding.
\<close>

datatype json = JInt int | JFloat string | JStr string | JObj "(string \<times> json) list"

type_synonym dict = "(string \<times> json) list"

text \<open>A dict display \<^verbatim>\<open>{k1: v1, ..., **d, ...}\<close>: the items are stored left to right.\<close>

definition dict_of :: "(string \<times> 'v) list \<Rightarrow> (string \<times> 'v) list" where
  "dict_of items = foldl (\<lambda>d kv. AList.update (fst kv) (snd kv) d) [] items"

text \<open>\<^verbatim>\<open>str(n)\<close> for an integer: decimal digits, a minus sign when negative.\<close>

definition digit_char :: "nat \<Rightarrow> char" where
  "digit_char d = ''0123456789'' ! d"

fun show_nat :: "nat \<Rightarrow> string" where
  "show_nat n = (if n < 10 then [digit_char n] else show_nat (n div 10) @ [digit_char (n mod 10)])"

declare show_nat.simps [simp del]

definition show_int :: "int \<Rightarrow> string" where
  "show_int i = (if i < 0 then CHR ''-'' # show_nat (nat (- i)) else show_nat (nat i))"

text \<open>Lowercase hexadecimal digits, as the format type \<^verbatim>\<open>x\<close> writes them.\<close>

definition hex_char :: "nat \<Rightarrow> char" where
  "hex_char d = ''0123456789abcdef'' ! d"

fun show_hex :: "nat \<Rightarrow> string" where
  "show_hex n = (if n < 16 then [hex_char n] else show_hex (n div 16) @ [hex_char (n mod 16)])"

declare show_hex.simps [simp del]

text \<open>The format \<^verbatim>\<open>{n:08x}\<close> and \<^verbatim>\<open>{n:04x}\<close>: zero-padded on the left to a minimum width.\<close>

definition zfill :: "nat \<Rightarrow> string \<Rightarrow> string" where
  "zfill w s = replicate (w - length s) (CHR ''0'') @ s"

definition format_08x :: "nat \<Rightarrow> string" where
  "format_08x n = zfill 8 (show_hex n)"

definition format_04x :: "nat \<Rightarrow> string" where
  "format_04x n = zfill 4 (show_hex n)"

text \<open>
  String literals as \<^verbatim>\<open>json.dumps\<close> writes them with \<^verbatim>\<open>ensure_ascii=True\<close> (its default):
  the quote and the backslash are escaped, the usual control characters get their short
  escape, every other character outside \<^verbatim>\<open>' '..'~'\<close> becomes \<^verbatim>\<open>\uXXXX\<close>.
\<close>

definition dquote :: char where
  "dquote = CHR 0x22"

definition backslash :: char where
  "backslash = CHR 0x5C"

definition esc_char :: "char \<Rightarrow> string" where
  "esc_char c =
     (if c = dquote then [backslash, dquote]
      else if c = backslash then [backslash, backslash]
      else if c = CHR 0x0A then [backslash, CHR ''n'']
      else if c = CHR 0x0D then [backslash, CHR ''r'']
      else if c = CHR 0x09 then [backslash, CHR ''t'']
      else if c = CHR 0x08 then [backslash, CHR ''b'']
      else if c = CHR 0x0C then [backslash, CHR ''f'']
      else if (of_char c :: nat) < 32 \<or> (of_char c :: nat) > 126
        then [backslash, CHR ''u''] @ format_04x (of_char c)
      else [c])"

definition json_str :: "string \<Rightarrow> string" where
  "json_str s = dquote # concat (map esc_char s) @ [dquote]"

text \<open>\<^verbatim>\<open>sep.join(xs)\<close>\<close>

fun join :: "string \<Rightarrow> string list \<Rightarrow> string" where
  "join sep [] = []"
| "join sep [x] = x"
| "join sep (x # y # ys) = x @ sep @ join sep (y # ys)"

text \<open>
  \<^verbatim>\<open>json.dumps(v, sort_keys=sk, separators=(isep, ksep))\<close>. With \<^verbatim>\<open>sort_keys\<close> the items
  of every dict are sorted by key (the keys of a dict are distinct, so the order of the
  items is the order of the keys; Python compares strings by code point, which is the
  order of \<open>string\<close> here).
\<close>

function dumps :: "bool \<Rightarrow> string \<Rightarrow> string \<Rightarrow> json \<Rightarrow> string" where
  "dumps sk isep ksep (JInt i) = show_int i"
| "dumps sk isep ksep (JFloat t) = t"
| "dumps sk isep ksep (JStr s) = json_str s"
| "dumps sk isep ksep (JObj kvs) =
     CHR ''{'' #
       join isep (map (\<lambda>kv. json_str (fst kv) @ ksep @ dumps sk isep ksep (snd kv))
                      (if sk then sort_key fst kvs else kvs))
     @ ''}''"
  by pat_completeness auto
termination
proof (relation "measure (\<lambda>(sk, isep, ksep, v). size v)")
  show "wf (measure (\<lambda>(sk, isep, ksep, v). size v))"
    by simp
next
  fix sk :: bool and isep ksep :: string and kvs :: "(string \<times> json) list" and kv
  assume "kv \<in> set (if sk then sort_key fst kvs else kvs)"
  then have "kv \<in> set kvs"
    by (simp split: if_splits)
  then have "size (snd kv) < size (JObj kvs)"
    by (induction kvs) auto
  then show "((sk, isep, ksep, snd kv), (sk, isep, ksep, JObj kvs))
      \<in> measure (\<lambda>(sk, isep, ksep, v). size v)"
    by simp
qed

text \<open>The two calls the program makes.\<close>

definition dumps_canonical :: "json \<Rightarrow> string" where
  "dumps_canonical v = dumps True '','' '':'' v"

definition dumps_default :: "json \<Rightarrow> string" where
  "dumps_default v = dumps False '', '' '': '' v"

text \<open>\<^verbatim>\<open>s.encode()\<close> on a string of characters below 256, each one byte.\<close>

definition encode :: "string \<Rightarrow> 8 word list" where
  "encode s = map (\<lambda>c. of_nat (of_char c)) s"

subsection \<open>\<^verbatim>\<open>zlib.crc32\<close>\<close>

text \<open>
  The library function, by its definition: CRC-32 of ISO 3309 (reflected polynomial
  \<^verbatim>\<open>0xEDB88320\<close>, register preset to all ones, result complemented), one bit at a time.
\<close>

definition crc_bit :: "32 word \<Rightarrow> 32 word" where
  "crc_bit c = (if bit c 0 then drop_bit 1 c XOR 0xEDB88320 else drop_bit 1 c)"

primrec crc_bits :: "nat \<Rightarrow> 32 word \<Rightarrow> 32 word" where
  "crc_bits 0 c = c"
| "crc_bits (Suc n) c = crc_bits n (crc_bit c)"

definition crc_byte :: "32 word \<Rightarrow> 8 word \<Rightarrow> 32 word" where
  "crc_byte c b = crc_bits 8 (c XOR ucast b)"

definition zlib_crc32 :: "8 word list \<Rightarrow> 32 word" where
  "zlib_crc32 bs = NOT (foldl crc_byte 0xFFFFFFFF bs)"

text \<open>
  Lines 115-116 and 369-370:
  \<^verbatim>\<open>body = json.dumps(rec, separators=(",", ":"), sort_keys=True).encode()\<close>,
  \<^verbatim>\<open>rec["crc32c"] = f"{zlib.crc32(body) & 0xffffffff:08x}"\<close>.
\<close>

definition checksum :: "dict \<Rightarrow> string" where
  "checksum r = format_08x (unat (zlib_crc32 (encode (dumps_canonical (JObj r))) AND 0xffffffff))"

definition attach_crc :: "dict \<Rightarrow> dict" where
  "attach_crc r = AList.update ''crc32c'' (JStr (checksum r)) r"

subsection \<open>What the program reads from outside\<close>

text \<open>
  The game variables as \<^verbatim>\<open>write_jsonl\<close> and \<^verbatim>\<open>write_fprime\<close> read them, after their
  \<^verbatim>\<open>int(...)\<close> or \<^verbatim>\<open>float(...)\<close>. A variable the engine's \<^verbatim>\<open>GameVariable\<close> does not have
  (\<^verbatim>\<open>hasattr\<close> is false) is \<open>None\<close>; the program reads \<^verbatim>\<open>HEALTH\<close> without asking.
\<close>

record gamevars =
  HEALTH :: int
  ARMOR :: "int option"
  KILLCOUNT :: "int option"
  POSITION_X :: "string option"
  POSITION_Y :: "string option"
  ANGLE :: "string option"
  SELECTED_WEAPON :: "int option"

text \<open>
  A \<^verbatim>\<open>KeyboardInterrupt\<close> inside an iteration ends the loop (both loops catch it, lines
  255 and 345) with whatever the iteration has done so far. It is modelled at the places
  that differ in what has been counted and written: \<open>InAction\<close>, after \<^verbatim>\<open>step += 1\<close> and
  before the attack is accounted (where \<^verbatim>\<open>play_manual\<close> raises it itself on QUIT or
  ESC, lines 224-228, and where a signal during \<^verbatim>\<open>make_action\<close> lands); \<open>BeforeRecord\<close>,
  after the accounting and before the recording statement; \<open>BetweenWrites\<close>, after
  \<^verbatim>\<open>write_jsonl\<close> has returned and before \<^verbatim>\<open>write_fprime\<close> is called. An interrupt after
  the record (in \<^verbatim>\<open>time.sleep\<close>) leaves a complete iteration: the list of iterations ends
  there.
\<close>

datatype interrupt = InAction | BeforeRecord | BetweenWrites

text \<open>
  One iteration of a step loop, as the program sees it: whether the engine reports the
  episode finished at the head of the iteration, the interrupt that arrives inside the
  iteration (if any), whether the action of this iteration presses \<^verbatim>\<open>ATTACK\<close>, the game
  variables after \<^verbatim>\<open>make_action\<close>, and the clock readings of the two write paths
  (\<^verbatim>\<open>int(now)\<close> and \<^verbatim>\<open>int(now * 1000)\<close> in \<^verbatim>\<open>write_jsonl\<close>, \<^verbatim>\<open>int(time.time())\<close> in
  \<^verbatim>\<open>write_fprime\<close>).
\<close>

record tick =
  tk_finished :: bool
  tk_interrupt :: "interrupt option"
  tk_attack :: bool
  tk_vars :: gamevars
  tk_unix_time :: int
  tk_unix_time_ms :: int
  tk_now :: int

subsection \<open>The recorder \<^verbatim>\<open>T0\<close>\<close>

text \<open>
  The file operations of the program, in the order it performs them. \<open>WriteLine r\<close> is
  \<^verbatim>\<open>self.jsonl.write((json.dumps(r) + "\n").encode())\<close>: the bytes are \<open>line_bytes r\<close>.
\<close>

datatype io_event =
    OpenLine string | OpenFrame string
  | WriteLine dict | FlushLine
  | WriteFrame "8 word list" | FlushFrame
  | CloseLine | CloseFrame

definition line_bytes :: "dict \<Rightarrow> 8 word list" where
  "line_bytes r = encode (dumps_default (JObj r) @ [CHR 0x0A])"

datatype error = StructError

record T0 =
  jsonl :: "string option"
  fbin :: "string option"
  prev_health :: "int option"
  prev_dmg_out :: int
  prev_kills :: int

text \<open>
  \<^verbatim>\<open>open(p, "ab") if p else None\<close>: no path and the empty path are both false. The handle
  is modelled by the path it was opened on.
\<close>

definition if_path :: "string option \<Rightarrow> string option" where
  "if_path p = (case p of None \<Rightarrow> None | Some s \<Rightarrow> if s = [] then None else Some s)"

definition T0_init :: "string option \<Rightarrow> string option \<Rightarrow> T0 \<times> io_event list" where
  "T0_init jsonl_path fprime_path =
     (\<lparr>jsonl = if_path jsonl_path, fbin = if_path fprime_path,
       prev_health = None, prev_dmg_out = 0, prev_kills = 0\<rparr>,
      (case if_path jsonl_path of None \<Rightarrow> [] | Some p \<Rightarrow> [OpenLine p]) @
      (case if_path fprime_path of None \<Rightarrow> [] | Some p \<Rightarrow> [OpenFrame p]))"

definition T0_close :: "T0 \<Rightarrow> io_event list" where
  "T0_close t =
     (case jsonl t of None \<Rightarrow> [] | Some _ \<Rightarrow> [CloseLine]) @
     (case fbin t of None \<Rightarrow> [] | Some _ \<Rightarrow> [CloseFrame])"

text \<open>Lines 82-87 of \<^verbatim>\<open>write_jsonl\<close>: the three deltas.\<close>

definition deltas :: "T0 \<Rightarrow> int \<Rightarrow> int \<Rightarrow> int \<Rightarrow> int \<times> int \<times> int" where
  "deltas t h dmg_out kills =
     ((case prev_health t of None \<Rightarrow> 0 | Some ph \<Rightarrow> max 0 (ph - h)),
      max 0 (dmg_out - prev_dmg_out t),
      max 0 (kills - prev_kills t))"

text \<open>Lines 89-91: the new baseline.\<close>

definition rebase :: "T0 \<Rightarrow> int \<Rightarrow> int \<Rightarrow> int \<Rightarrow> T0" where
  "rebase t h dmg_out kills =
     t\<lparr>prev_health := Some h, prev_dmg_out := dmg_out, prev_kills := kills\<rparr>"

definition ammo_json :: "(string \<times> int) list \<Rightarrow> json" where
  "ammo_json au = JObj (map (\<lambda>kv. (fst kv, JInt (snd kv))) au)"

text \<open>Lines 93-112: the record, before its checksum.\<close>

definition tick_record ::
  "dict \<Rightarrow> int \<Rightarrow> int \<Rightarrow> int \<Rightarrow> gamevars \<Rightarrow> (string \<times> int) list \<Rightarrow> int \<times> int \<times> int \<Rightarrow> dict" where
  "tick_record base_meta unix_time unix_time_ms stp g au d =
     dict_of (
       [(''type'', JStr ''tier0_telemetry''),
        (''schema'', JStr ''v1''),
        (''unix_time'', JInt unix_time),
        (''unix_time_ms'', JInt unix_time_ms),
        (''step'', JInt stp)]
       @ base_meta @
       [(''level'', get_or (map_of base_meta ''level_start'') (JStr ''E1M1'')),
        (''health'', JInt (HEALTH g)),
        (''armor'', JInt (get_or (ARMOR g) 0)),
        (''selected_weapon'', JInt (get_or (SELECTED_WEAPON g) 2)),
        (''pose'', JObj [(''x'', JFloat (get_or (POSITION_X g) ''0.0'')),
                         (''y'', JFloat (get_or (POSITION_Y g) ''0.0'')),
                         (''yaw_deg'', JFloat (get_or (ANGLE g) ''0.0''))]),
        (''keys'', JObj [(''red'', JInt 0), (''blue'', JInt 0), (''yellow'', JInt 0)]),
        (''secrets_found'', JInt 0),
        (''resources'', JObj [(''ammo_used'', ammo_json au), (''medkits_used'', JInt 0),
                              (''armor_picked'', JInt 0)]),
        (''combat'', JObj [(''dmg_in_delta'', JInt (fst d)),
                           (''dmg_out_delta'', JInt (fst (snd d))),
                           (''kills_delta'', JInt (snd (snd d)))]),
        (''performance'', JObj [(''avg_fps'', JInt 0), (''avg_frame_ms'', JInt 0),
                                (''cpu_pct'', JInt 0), (''rss_mb'', JInt 0),
                                (''gc_events'', JInt 0)]),
        (''faults'', JObj [(''ecc_corrected'', JInt 0), (''bitflips_injected'', JInt 0),
                           (''watchdog_resets'', JInt 0)]),
        (''outcome'', JStr ''ALIVE'')])"

text \<open>
  \<^verbatim>\<open>T0.write_jsonl(base_meta, g, dmg_out_total, ammo_used, step)\<close>: the updated recorder
  and the file operations of the call. Nothing in it raises on the values above.
\<close>

definition write_jsonl ::
  "T0 \<Rightarrow> dict \<Rightarrow> gamevars \<Rightarrow> int \<Rightarrow> (string \<times> int) list \<Rightarrow> int \<Rightarrow> int \<Rightarrow> int
     \<Rightarrow> T0 \<times> io_event list" where
  "write_jsonl t base_meta g dmg_out au stp unix_time unix_time_ms =
     (let h = HEALTH g;
          kills = get_or (KILLCOUNT g) 0;
          d = deltas t h dmg_out kills;
          t' = rebase t h dmg_out kills;
          r = attach_crc (tick_record base_meta unix_time unix_time_ms stp g au d)
      in (t', case jsonl t' of None \<Rightarrow> [] | Some _ \<Rightarrow> [WriteLine r, FlushLine]))"

subsection \<open>\<^verbatim>\<open>struct.pack(">4sIHHH", ...)\<close> and the frame sink\<close>

text \<open>
  Big-endian, no padding: \<^verbatim>\<open>4s\<close> is four bytes of the given bytes (cut or zero-filled),
  \<^verbatim>\<open>I\<close> an unsigned 32-bit and \<^verbatim>\<open>H\<close> an unsigned 16-bit integer. An integer out of the
  range of its field raises \<^verbatim>\<open>struct.error\<close>.
\<close>

definition be_bytes :: "nat \<Rightarrow> int \<Rightarrow> 8 word list" where
  "be_bytes n v = map (\<lambda>i. word_of_int (v div 256 ^ i)) (rev [0..<n])"

definition pack_uint :: "nat \<Rightarrow> int \<Rightarrow> error + 8 word list" where
  "pack_uint n v = (if 0 \<le> v \<and> v < 256 ^ n then Inr (be_bytes n v) else Inl StructError)"

definition pack_4s :: "8 word list \<Rightarrow> 8 word list" where
  "pack_4s bs = take 4 (bs @ replicate 4 0)"

definition pack_4sIHHH :: "8 word list \<Rightarrow> int \<Rightarrow> int \<Rightarrow> int \<Rightarrow> int \<Rightarrow> error + 8 word list" where
  "pack_4sIHHH m now h a k =
     (case pack_uint 4 now of Inl e \<Rightarrow> Inl e | Inr nb \<Rightarrow>
      case pack_uint 2 h of Inl e \<Rightarrow> Inl e | Inr hb \<Rightarrow>
      case pack_uint 2 a of Inl e \<Rightarrow> Inl e | Inr ab \<Rightarrow>
      case pack_uint 2 k of Inl e \<Rightarrow> Inl e | Inr kb \<Rightarrow>
        Inr (pack_4s m @ nb @ hb @ ab @ kb))"

definition magic :: "8 word list" where
  "magic = encode ''DSF0''"

text \<open>\<^verbatim>\<open>T0.write_fprime(g)\<close>: the file operations of the call, or the error it raises.\<close>

definition write_fprime :: "T0 \<Rightarrow> gamevars \<Rightarrow> int \<Rightarrow> error + io_event list" where
  "write_fprime t g now =
     (case fbin t of None \<Rightarrow> Inr []
      | Some _ \<Rightarrow>
          (case pack_4sIHHH magic now
                  (clamp (HEALTH g) 0 65535)
                  (clamp (get_or (ARMOR g) 0) 0 65535)
                  (clamp (get_or (KILLCOUNT g) 0) 0 65535) of
             Inl e \<Rightarrow> Inl e
           | Inr pkt \<Rightarrow> Inr [WriteFrame pkt, FlushFrame]))"

text \<open>
  The reader's side of the frame, \<^verbatim>\<open>struct.unpack(">4sIHHH", frame)\<close>: it is not in the
  program and is written from the frame layout, to state the round trip.
\<close>

definition be_uint :: "8 word list \<Rightarrow> int" where
  "be_uint bs = foldl (\<lambda>acc b. acc * 256 + uint b) 0 bs"

definition unpack_4sIHHH :: "8 word list \<Rightarrow> (8 word list \<times> int \<times> int \<times> int \<times> int) option" where
  "unpack_4sIHHH bs =
     (if length bs = 14
      then Some (take 4 bs, be_uint (take 4 (drop 4 bs)), be_uint (take 2 (drop 8 bs)),
                 be_uint (take 2 (drop 10 bs)), be_uint (take 2 (drop 12 bs)))
      else None)"

subsection \<open>The step loops of \<^verbatim>\<open>run_episode\<close> and \<^verbatim>\<open>play_manual\<close>\<close>

text \<open>The session metadata, a literal in each driver (lines 298 and 193).\<close>

definition meta_linear :: dict where
  "meta_linear =
     dict_of [(''run_id'', JStr ''42''), (''episode_id'', JStr ''7''),
              (''algo_id'', JStr ''linear-policy''), (''git'', JStr ''a1b2c3d''),
              (''rng_seed'', JInt 123456), (''level_start'', JStr ''E1M1'')]"

definition meta_manual :: dict where
  "meta_manual =
     dict_of [(''run_id'', JStr ''42''), (''episode_id'', JStr ''manual''),
              (''algo_id'', JStr ''manual''), (''git'', JStr ''a1b2c3d''),
              (''rng_seed'', JInt 123456), (''level_start'', JStr ''E1M1'')]"

definition ammo_used_init :: "(string \<times> int) list" where
  "ammo_used_init =
     dict_of (map (\<lambda>k. (k, 0)) [''PISTOL'', ''SHOTGUN'', ''CHAINGUN'', ''ROCKET'', ''PLASMA'', ''BFG''])"

text \<open>The local variables of a driver that the loop changes, and the file operations so far.\<close>

record run_state =
  step :: int
  dmg_out_total :: int
  ammo_used :: "(string \<times> int) list"
  t0 :: T0
  io :: "io_event list"

text \<open>Lines 330-334 (241-245 in \<^verbatim>\<open>play_manual\<close>): the nominal damage of a shot.\<close>

definition account_attack :: "tick \<Rightarrow> run_state \<Rightarrow> run_state" where
  "account_attack tk s =
     (if tk_attack tk
      then (let slot = get_or (SELECTED_WEAPON (tk_vars tk)) 2;
                name = get_or (SLOT2NAME slot) ''PISTOL''
            in s\<lparr>ammo_used := AList.update name (get_or (map_of (ammo_used s) name) 0 + 1) (ammo_used s),
                 dmg_out_total := dmg_out_total s + get_or (NOMINAL_DMG slot) 10\<rparr>)
      else s)"

text \<open>
  Lines 339-341 (247-249): \<^verbatim>\<open>if t0_every and step % t0_every == 0:\<close> both write paths.
  Python's \<^verbatim>\<open>%\<close> on integers is \<open>mod\<close> on \<open>int\<close>. An interrupt between the two calls
  leaves the line written and no frame.
\<close>

definition record_gate :: "int \<Rightarrow> int \<Rightarrow> bool" where
  "record_gate t0_every stp \<longleftrightarrow> t0_every \<noteq> 0 \<and> stp mod t0_every = 0"

definition record_tick :: "int \<Rightarrow> dict \<Rightarrow> tick \<Rightarrow> run_state \<Rightarrow> error + run_state" where
  "record_tick t0_every meta tk s =
     (if record_gate t0_every (step s)
      then (let (t', ev) = write_jsonl (t0 s) meta (tk_vars tk) (dmg_out_total s) (ammo_used s)
                             (step s) (tk_unix_time tk) (tk_unix_time_ms tk)
            in if tk_interrupt tk = Some BetweenWrites then Inr (s\<lparr>t0 := t', io := io s @ ev\<rparr>)
               else case write_fprime t' (tk_vars tk) (tk_now tk) of
                      Inl e \<Rightarrow> Inl e
                    | Inr ev' \<Rightarrow> Inr (s\<lparr>t0 := t', io := io s @ ev @ ev'\<rparr>))
      else Inr s)"


text \<open>
  The loop of \<^verbatim>\<open>run_episode\<close> (lines 308-343): \<^verbatim>\<open>while not g.is_episode_finished()\<close>,
  then the same body (it raises no interrupt itself; a signal lands where it lands).
\<close>

fun run_episode_loop :: "int \<Rightarrow> int \<Rightarrow> dict \<Rightarrow> run_state \<Rightarrow> tick list \<Rightarrow> error + run_state" where
  "run_episode_loop steps t0_every meta s [] = Inr s"
| "run_episode_loop steps t0_every meta s (tk # tks) =
     (if tk_finished tk then Inr s
      else if steps \<noteq> 0 \<and> step s \<ge> steps then Inr s
      else if tk_interrupt tk = Some InAction then Inr (s\<lparr>step := step s + 1\<rparr>)
      else if tk_interrupt tk = Some BeforeRecord
        then Inr (account_attack tk (s\<lparr>step := step s + 1\<rparr>))
      else (case record_tick t0_every meta tk (account_attack tk (s\<lparr>step := step s + 1\<rparr>)) of
              Inl e \<Rightarrow> Inl e
            | Inr s' \<Rightarrow>
                if tk_interrupt tk = Some BetweenWrites then Inr s'
                else run_episode_loop steps t0_every meta s' tks))"

subsection \<open>The episode summary\<close>

text \<open>
  \<^verbatim>\<open>round(max(0.01, step/300.0), 2)\<close>, over the rationals: \<^verbatim>\<open>round(x, 2)\<close> rounds to the
  nearest multiple of \<open>1/100\<close>, a tie to the even one. (The float the program gets is the
  double nearest to this value: \<open>step/3\<close> is never within \<open>1/6\<close> of a tie.)
\<close>

definition round_half_even :: "rat \<Rightarrow> int" where
  "round_half_even x =
     (let f = \<lfloor>x\<rfloor>; d = x - of_int f
      in if d < 1 / 2 then f else if d > 1 / 2 then f + 1 else if even f then f else f + 1)"

definition round2 :: "rat \<Rightarrow> rat" where
  "round2 x = of_int (round_half_even (x * 100)) / 100"

definition duration_s :: "int \<Rightarrow> rat" where
  "duration_s stp = round2 (max (1 / 100) (of_int stp / 300))"

text \<open>
  \<^verbatim>\<open>repr\<close> of a non-negative float that is a multiple of \<open>1/100\<close> (below \<open>10^16\<close>): the
  integer part, a point, and one or two decimals.
\<close>

definition repr_2dp :: "rat \<Rightarrow> string" where
  "repr_2dp x =
     (let n = nat \<lfloor>x * 100\<rfloor>; fr = n mod 100
      in show_nat (n div 100) @ ''.'' @
         (if fr mod 10 = 0 then [digit_char (fr div 10)]
          else [digit_char (fr div 10), digit_char (fr mod 10)]))"

text \<open>\<^verbatim>\<open>random.choice(seq)\<close> is \<^verbatim>\<open>seq[i]\<close> for the index \<open>i\<close> the generator draws below \<^verbatim>\<open>len(seq)\<close>.\<close>

definition random_choice :: "nat \<Rightarrow> 'a list \<Rightarrow> 'a" where
  "random_choice i xs = xs ! i"

text \<open>
  Lines 355-368. \<open>now\<close> is \<^verbatim>\<open>int(time.time())\<close>, \<open>draw\<close> the index the random generator
  draws, \<open>fps\<close> the text of \<^verbatim>\<open>round(1000.0/max(1.0, slow_ms), 2)\<close> and \<open>path_len\<close> the text of
  \<^verbatim>\<open>round(path_len, 2)\<close>. \<^verbatim>\<open>round(slow_ms, 2)\<close> of an integer is that integer.
\<close>

definition summary :: "int \<Rightarrow> int \<Rightarrow> (string \<times> int) list \<Rightarrow> int \<Rightarrow> int \<Rightarrow> nat \<Rightarrow> string \<Rightarrow> string \<Rightarrow> dict" where
  "summary stp dmg_out au slow_ms now draw fps path_len =
     dict_of
       [(''type'', JStr ''episode_summary''), (''schema'', JStr ''v1''), (''unix_time'', JInt now),
        (''run_id'', JStr ''42''), (''episode_id'', JStr ''7''), (''algo_id'', JStr ''linear-policy''),
        (''git'', JStr ''a1b2c3d''), (''rng_seed'', JInt 123456),
        (''level_start'', JStr ''E1M1''), (''levels_completed'', JInt 1), (''result'', JStr ''UNKNOWN''),
        (''duration_s'', JFloat (repr_2dp (duration_s stp))),
        (''deaths'', JInt 0),
        (''damage'', JObj [(''taken_total'', JInt (random_choice draw [60, 72, 84, 90, 96])),
                           (''dealt_total'', JInt dmg_out), (''dealt_by_enemy'', JObj [])]),
        (''resources'', JObj [(''ammo_used'', ammo_json au), (''medkits_used'', JInt 0),
                              (''armor_picked'', JInt 0)]),
        (''efficiency'', JObj [(''dmg_per_ammo'', JObj []), (''strong_targeting_pct'', JFloat ''0.0''),
                               (''overkill_pct'', JFloat ''0.0'')]),
        (''performance'', JObj [(''avg_fps'', JFloat (if slow_ms \<noteq> 0 then fps else ''300.0'')),
                                (''avg_frame_ms'', if slow_ms \<noteq> 0 then JInt slow_ms else JFloat ''3.5''),
                                (''cpu_pct'', JInt 0), (''rss_mb'', JInt 0), (''gc_events'', JInt 0)]),
        (''faults'', JObj [(''ecc_corrected'', JInt 0), (''bitflips_injected'', JInt 0),
                           (''watchdog_resets'', JInt 0)]),
        (''nav'', JObj [(''path_len_m'', JFloat path_len), (''backtrack_pct'', JFloat ''0.0''),
                        (''stuck_events'', JInt 0)]),
        (''kills'', JInt 0)]"

text \<open>
  \<^verbatim>\<open>run_episode\<close>, from the recorder's construction to the printed summary: the file
  operations of the run and the summary with its checksum, or the error that leaves it.
\<close>

definition run_episode ::
  "int \<Rightarrow> int \<Rightarrow> int \<Rightarrow> string option \<Rightarrow> string option \<Rightarrow> tick list
     \<Rightarrow> int \<Rightarrow> nat \<Rightarrow> string \<Rightarrow> string \<Rightarrow> error + io_event list \<times> dict" where
  "run_episode steps slow_ms t0_every t0_jsonl fprime_frames ticks now draw fps path_len =
     (let (t, ev) = T0_init t0_jsonl fprime_frames;
          s0 = \<lparr>step = 0, dmg_out_total = 0, ammo_used = ammo_used_init, t0 = t, io = ev\<rparr>
      in case run_episode_loop steps t0_every meta_linear s0 ticks of
           Inl e \<Rightarrow> Inl e
         | Inr s \<Rightarrow>
             Inr (io s @ T0_close (t0 s),
                  attach_crc (summary (step s) (dmg_out_total s) (ammo_used s) slow_ms now draw fps path_len)))"

subsection \<open>Reading a record\<close>

text \<open>The records a run wrote to the line sink, and the fields of a record the theorems name.\<close>

fun line_records :: "io_event list \<Rightarrow> dict list" where
  "line_records [] = []"
| "line_records (WriteLine r # evs) = r # line_records evs"
| "line_records (_ # evs) = line_records evs"

fun frames :: "io_event list \<Rightarrow> 8 word list list" where
  "frames [] = []"
| "frames (WriteFrame b # evs) = b # frames evs"
| "frames (_ # evs) = frames evs"

definition field :: "string \<Rightarrow> dict \<Rightarrow> json option" where
  "field k r = map_of r k"

definition field2 :: "string \<Rightarrow> string \<Rightarrow> dict \<Rightarrow> json option" where
  "field2 k k' r = (case map_of r k of Some (JObj d) \<Rightarrow> map_of d k' | _ \<Rightarrow> None)"

subsection \<open>Sequences of calls\<close>

text \<open>
  The arguments of one call of \<^verbatim>\<open>write_jsonl\<close> (with the clock it reads), and a sequence of
  calls on one recorder, each on the recorder the call before left.
\<close>

record jsonl_call =
  c_meta :: dict
  c_vars :: gamevars
  c_dmg_out_total :: int
  c_ammo_used :: "(string \<times> int) list"
  c_step :: int
  c_unix_time :: int
  c_unix_time_ms :: int

fun write_jsonl_calls :: "T0 \<Rightarrow> jsonl_call list \<Rightarrow> T0 \<times> io_event list" where
  "write_jsonl_calls t [] = (t, [])"
| "write_jsonl_calls t (c # cs) =
     (let (t', ev) = write_jsonl t (c_meta c) (c_vars c) (c_dmg_out_total c) (c_ammo_used c)
                       (c_step c) (c_unix_time c) (c_unix_time_ms c);
          (t'', evs) = write_jsonl_calls t' cs
      in (t'', ev @ evs))"

text \<open>Inputs for the worked examples.\<close>

definition example_vars :: "int \<Rightarrow> int \<Rightarrow> int \<Rightarrow> gamevars" where
  "example_vars h a k =
     \<lparr>HEALTH = h, ARMOR = Some a, KILLCOUNT = Some k, POSITION_X = Some ''0.0'',
      POSITION_Y = Some ''0.0'', ANGLE = Some ''0.0'', SELECTED_WEAPON = Some 2\<rparr>"

definition example_call :: "int \<Rightarrow> int \<Rightarrow> int \<Rightarrow> int \<Rightarrow> jsonl_call" where
  "example_call h dmg k stp =
     \<lparr>c_meta = meta_linear, c_vars = example_vars h 0 k, c_dmg_out_total = dmg,
      c_ammo_used = ammo_used_init, c_step = stp, c_unix_time = 1700000000,
      c_unix_time_ms = 1700000000000\<rparr>"

definition example_tick :: "int \<Rightarrow> bool \<Rightarrow> tick" where
  "example_tick h atk =
     \<lparr>tk_finished = False, tk_interrupt = None, tk_attack = atk, tk_vars = example_vars h 0 0,
      tk_unix_time = 1700000000, tk_unix_time_ms = 1700000000000, tk_now = 1700000000\<rparr>"

subsection \<open>What the cadence prescribes\<close>







subsection \<open>The iterations of a run\<close>






subsection \<open>Records with the same field values\<close>





section \<open>Properties\<close>

subsection \<open>The frame sink\<close>

lemma be_uint_snoc: "be_uint (bs @ [b]) = be_uint bs * 256 + uint b"
  by (simp add: be_uint_def)

lemma be_bytes_Suc: "be_bytes (Suc n) v = be_bytes n (v div 256) @ [word_of_int v]"
proof -
  have "[0..<Suc n] = 0 # map Suc [0..<n]"
    by (simp add: upt_conv_Cons map_Suc_upt del: upt_Suc)
  moreover have "\<And>i. v div 256 ^ Suc i = v div 256 div 256 ^ i"
    by (simp add: zdiv_zmult2_eq)
  ultimately show ?thesis
    by (simp add: be_bytes_def rev_map del: upt_Suc power_Suc)
qed

lemma be_uint_be_bytes: "0 \<le> v \<Longrightarrow> v < 256 ^ n \<Longrightarrow> be_uint (be_bytes n v) = v"
proof (induction n arbitrary: v)
  case 0
  then show ?case by (simp add: be_bytes_def be_uint_def)
next
  case (Suc n)
  have "0 \<le> v div 256" and "v div 256 < 256 ^ n"
    using Suc.prems by auto
  then have "be_uint (be_bytes n (v div 256)) = v div 256"
    by (rule Suc.IH)
  then show ?case
    by (simp add: be_bytes_Suc be_uint_snoc uint_word_of_int take_bit_eq_mod)
qed

lemma be_bytes_2: "be_bytes 2 v = [word_of_int (v div 256), word_of_int v]"
  by (simp add: be_bytes_def numeral_2_eq_2)

lemma be_bytes_4:
  "be_bytes 4 v = [word_of_int (v div 16777216), word_of_int (v div 65536),
                   word_of_int (v div 256), word_of_int v]"
  by (simp add: be_bytes_def eval_nat_numeral)

lemma length_be_bytes: "length (be_bytes n v) = n"
  by (simp add: be_bytes_def)

lemma clamp_u16: "0 \<le> clamp v 0 65535 \<and> clamp v 0 65535 < 256 ^ 2"
  by (simp add: clamp_def)

lemma magic_bytes: "magic = [0x44, 0x53, 0x46, 0x30]"
  by (simp add: magic_def encode_def)

lemma pack_4s_magic: "pack_4s magic = magic"
  by (simp add: magic_bytes pack_4s_def)

lemma pack_frame_clamped:
  assumes "pack_4sIHHH magic now (clamp h 0 65535) (clamp a 0 65535) (clamp k 0 65535) = Inr pkt"
  shows "0 \<le> now \<and> now < 256 ^ 4 \<and>
         pkt = magic @ be_bytes 4 now @ be_bytes 2 (clamp h 0 65535)
                 @ be_bytes 2 (clamp a 0 65535) @ be_bytes 2 (clamp k 0 65535)"
  using assms clamp_u16 [of h] clamp_u16 [of a] clamp_u16 [of k]
  by (simp add: pack_4sIHHH_def pack_uint_def pack_4s_magic split: if_splits)

lemma pack_frame_ok:
  assumes "0 \<le> now" "now < 256 ^ 4"
  shows "pack_4sIHHH magic now (clamp h 0 65535) (clamp a 0 65535) (clamp k 0 65535) =
           Inr (magic @ be_bytes 4 now @ be_bytes 2 (clamp h 0 65535)
                 @ be_bytes 2 (clamp a 0 65535) @ be_bytes 2 (clamp k 0 65535))"
  using assms clamp_u16 [of h] clamp_u16 [of a] clamp_u16 [of k]
  by (simp add: pack_4sIHHH_def pack_uint_def pack_4s_magic)

lemma unpack_layout:
  assumes "length m = 4" "0 \<le> n" "n < 256 ^ 4" "0 \<le> h" "h < 256 ^ 2" "0 \<le> a" "a < 256 ^ 2"
    "0 \<le> k" "k < 256 ^ 2"
  shows "unpack_4sIHHH (m @ be_bytes 4 n @ be_bytes 2 h @ be_bytes 2 a @ be_bytes 2 k) = Some (m, n, h, a, k)"
  using assms
  by (simp add: unpack_4sIHHH_def length_be_bytes be_uint_be_bytes)

text \<open>
  C4. Every frame \<^verbatim>\<open>write_fprime\<close> writes is 14 bytes: the tag \<^verbatim>\<open>DSF0\<close>, the timestamp as
  four big-endian bytes, then health, armor and kill count (each clamped into 0..65535) as
  two big-endian bytes each; and unpacking the frame gives back the tag, the timestamp and
  the three encoded values.
\<close>

theorem frame_layout_roundtrip:
  assumes "write_fprime t g now = Inr evs" and "fbin t = Some p"
  shows "\<exists>pkt. evs = [WriteFrame pkt, FlushFrame] \<and> length pkt = 14 \<and>
           pkt = encode ''DSF0'' @ be_bytes 4 now
                   @ be_bytes 2 (clamp (HEALTH g) 0 65535)
                   @ be_bytes 2 (clamp (get_or (ARMOR g) 0) 0 65535)
                   @ be_bytes 2 (clamp (get_or (KILLCOUNT g) 0) 0 65535) \<and>
           unpack_4sIHHH pkt =
             Some (encode ''DSF0'', now, clamp (HEALTH g) 0 65535,
                   clamp (get_or (ARMOR g) 0) 0 65535, clamp (get_or (KILLCOUNT g) 0) 0 65535)"
proof -
  let ?h = "clamp (HEALTH g) 0 65535"
  let ?a = "clamp (get_or (ARMOR g) 0) 0 65535"
  let ?k = "clamp (get_or (KILLCOUNT g) 0) 0 65535"
  let ?pkt = "magic @ be_bytes 4 now @ be_bytes 2 ?h @ be_bytes 2 ?a @ be_bytes 2 ?k"
  from assms obtain pkt where pk: "pack_4sIHHH magic now ?h ?a ?k = Inr pkt"
    and ev: "evs = [WriteFrame pkt, FlushFrame]"
    by (auto simp: write_fprime_def split: sum.splits)
  from pack_frame_clamped [OF pk] have now: "0 \<le> now" "now < 256 ^ 4" and pkt: "pkt = ?pkt"
    by simp_all
  have len: "length ?pkt = 14"
    by (simp add: length_be_bytes magic_bytes)
  have "unpack_4sIHHH ?pkt = Some (magic, now, ?h, ?a, ?k)"
    using now clamp_u16 [of "HEALTH g"] clamp_u16 [of "get_or (ARMOR g) 0"]
      clamp_u16 [of "get_or (KILLCOUNT g) 0"]
    by (intro unpack_layout) (simp_all add: magic_bytes)
  with ev pkt len show ?thesis
    by (simp add: magic_def)
qed

text \<open>The frame for health 57, armor 32, kills 4 at the timestamp 1700000000, byte by byte.\<close>

theorem frame_layout_roundtrip_witness:
  "write_fprime
      \<lparr>jsonl = None, fbin = Some ''frames.bin'', prev_health = None, prev_dmg_out = 0, prev_kills = 0\<rparr>
      \<lparr>HEALTH = 57, ARMOR = Some 32, KILLCOUNT = Some 4, POSITION_X = None, POSITION_Y = None,
        ANGLE = None, SELECTED_WEAPON = None\<rparr> 1700000000
     = Inr [WriteFrame [0x44, 0x53, 0x46, 0x30, 0x65, 0x53, 0xF1, 0x00, 0, 57, 0, 32, 0, 4], FlushFrame]
   \<and> unpack_4sIHHH [0x44, 0x53, 0x46, 0x30, 0x65, 0x53, 0xF1, 0x00, 0, 57, 0, 32, 0, 4]
     = Some ([0x44, 0x53, 0x46, 0x30], 1700000000, 57, 32, 4)"
proof -
  let ?t = "\<lparr>jsonl = None, fbin = Some ''frames.bin'', prev_health = None, prev_dmg_out = 0, prev_kills = 0\<rparr>"
  let ?g = "\<lparr>HEALTH = 57, ARMOR = Some 32, KILLCOUNT = Some 4, POSITION_X = None, POSITION_Y = None,
        ANGLE = None, SELECTED_WEAPON = None\<rparr>"
  let ?pkt = "[0x44, 0x53, 0x46, 0x30, 0x65, 0x53, 0xF1, 0x00, 0, 57, 0, 32, 0, 4] :: 8 word list"
  have run: "write_fprime ?t ?g 1700000000 = Inr [WriteFrame ?pkt, FlushFrame]"
    by (simp add: write_fprime_def pack_4sIHHH_def pack_uint_def pack_4s_def magic_def encode_def
        clamp_def get_or_def be_bytes_2 be_bytes_4)
  have "fbin ?t = Some ''frames.bin''"
    by simp
  from frame_layout_roundtrip [OF run this]
  obtain pkt where "[WriteFrame ?pkt, FlushFrame] = [WriteFrame pkt, FlushFrame]"
    and "unpack_4sIHHH pkt =
           Some (encode ''DSF0'', 1700000000, clamp 57 0 65535, clamp 32 0 65535, clamp 4 0 65535)"
    by (auto simp: get_or_def)
  then have "unpack_4sIHHH ?pkt =
           Some (encode ''DSF0'', 1700000000, clamp 57 0 65535, clamp 32 0 65535, clamp 4 0 65535)"
    by simp
  then have "unpack_4sIHHH ?pkt = Some ([0x44, 0x53, 0x46, 0x30], 1700000000, 57, 32, 4)"
    by (simp add: clamp_def encode_def)
  with run show ?thesis
    by simp
qed

lemma clamp_saturate: "clamp v 0 65535 = max 0 (min 65535 v)"
  by (simp add: clamp_def)

text \<open>
  C5. Whatever integers the engine reports for health, armor and kill count, the frame sink
  writes a frame (no error as long as the timestamp fits 32 bits) and each 16-bit field
  holds the value saturated into 0..65535: below 0 it is 0, above 65535 it is 65535.
\<close>

theorem frame_clamp_saturates:
  assumes "fbin t = Some p" and "0 \<le> now" and "now < 2 ^ 32"
  shows "\<exists>pkt. write_fprime t g now = Inr [WriteFrame pkt, FlushFrame] \<and>
           be_uint (take 2 (drop 8 pkt)) = max 0 (min 65535 (HEALTH g)) \<and>
           be_uint (take 2 (drop 10 pkt)) = max 0 (min 65535 (get_or (ARMOR g) 0)) \<and>
           be_uint (take 2 (drop 12 pkt)) = max 0 (min 65535 (get_or (KILLCOUNT g) 0))"
proof -
  let ?h = "clamp (HEALTH g) 0 65535"
  let ?a = "clamp (get_or (ARMOR g) 0) 0 65535"
  let ?k = "clamp (get_or (KILLCOUNT g) 0) 0 65535"
  let ?pkt = "magic @ be_bytes 4 now @ be_bytes 2 ?h @ be_bytes 2 ?a @ be_bytes 2 ?k"
  from assms(2,3) have "pack_4sIHHH magic now ?h ?a ?k = Inr ?pkt"
    by (intro pack_frame_ok) simp_all
  with assms(1) have w: "write_fprime t g now = Inr [WriteFrame ?pkt, FlushFrame]"
    by (simp add: write_fprime_def)
  have "be_uint (take 2 (drop 8 ?pkt)) = ?h" "be_uint (take 2 (drop 10 ?pkt)) = ?a"
    "be_uint (take 2 (drop 12 ?pkt)) = ?k"
    using clamp_u16 [of "HEALTH g"] clamp_u16 [of "get_or (ARMOR g) 0"]
      clamp_u16 [of "get_or (KILLCOUNT g) 0"]
    by (simp_all add: magic_bytes length_be_bytes be_uint_be_bytes)
  then have "be_uint (take 2 (drop 8 ?pkt)) = max 0 (min 65535 (HEALTH g))"
    "be_uint (take 2 (drop 10 ?pkt)) = max 0 (min 65535 (get_or (ARMOR g) 0))"
    "be_uint (take 2 (drop 12 ?pkt)) = max 0 (min 65535 (get_or (KILLCOUNT g) 0))"
    by (simp_all only: clamp_saturate)
  with w show ?thesis
    by (intro exI [of _ ?pkt] conjI)
qed

text \<open>Health 70000 is written as \<^verbatim>\<open>FF FF\<close> (65535), armor -5 as 0.\<close>

theorem frame_clamp_saturates_witness:
  "write_fprime
      \<lparr>jsonl = None, fbin = Some ''frames.bin'', prev_health = None, prev_dmg_out = 0, prev_kills = 0\<rparr>
      (example_vars 70000 (- 5) 4) 1700000000
     = Inr [WriteFrame [0x44, 0x53, 0x46, 0x30, 0x65, 0x53, 0xF1, 0x00, 0xFF, 0xFF, 0, 0, 0, 4], FlushFrame]
   \<and> be_uint [0xFF, 0xFF] = 65535"
proof -
  let ?t = "\<lparr>jsonl = None, fbin = Some ''frames.bin'', prev_health = None, prev_dmg_out = 0, prev_kills = 0\<rparr>"
  let ?pkt = "[0x44, 0x53, 0x46, 0x30, 0x65, 0x53, 0xF1, 0x00, 0xFF, 0xFF, 0, 0, 0, 4] :: 8 word list"
  have run: "write_fprime ?t (example_vars 70000 (- 5) 4) 1700000000 = Inr [WriteFrame ?pkt, FlushFrame]"
    by (simp add: write_fprime_def pack_4sIHHH_def pack_uint_def pack_4s_def magic_def encode_def
        clamp_def get_or_def be_bytes_2 be_bytes_4 example_vars_def)
  have "fbin ?t = Some ''frames.bin''" and "(0::int) \<le> 1700000000" and "(1700000000::int) < 2 ^ 32"
    by simp_all
  from frame_clamp_saturates [OF this, of "example_vars 70000 (- 5) 4"]
  obtain pkt where "write_fprime ?t (example_vars 70000 (- 5) 4) 1700000000 = Inr [WriteFrame pkt, FlushFrame]"
    and "be_uint (take 2 (drop 8 pkt)) = max 0 (min 65535 (HEALTH (example_vars 70000 (- 5) 4)))"
    by (elim exE conjE)
  with run have "be_uint (take 2 (drop 8 ?pkt)) = max 0 (min 65535 (HEALTH (example_vars 70000 (- 5) 4)))"
    by simp
  then have "be_uint [0xFF, 0xFF] = 65535"
    by (simp add: example_vars_def)
  with run show ?thesis
    by simp
qed

subsection \<open>Fields of a tick record\<close>

lemma map_of_foldl_update:
  "map_of (foldl (\<lambda>d kv. AList.update (fst kv) (snd kv) d) acc xs) = map_of (rev xs @ acc)"
proof (induction xs arbitrary: acc)
  case Nil
  then show ?case by simp
next
  case (Cons x xs)
  show ?case
    by (simp add: Cons.IH update_conv' map_add_def fun_eq_iff split: option.splits)
qed

lemma map_of_dict_of: "map_of (dict_of xs) = map_of (rev xs)"
  by (simp add: dict_of_def map_of_foldl_update)

lemma field_attach_crc: "k \<noteq> ''crc32c'' \<Longrightarrow> field k (attach_crc r) = field k r"
  by (simp add: field_def attach_crc_def update_conv')

lemma field2_attach_crc: "k \<noteq> ''crc32c'' \<Longrightarrow> field2 k k' (attach_crc r) = field2 k k' r"
  by (simp add: field2_def attach_crc_def update_conv')


lemma tick_record_combat:
  "field2 ''combat'' ''dmg_in_delta'' (tick_record m u um k g au d) = Some (JInt (fst d))"
  "field2 ''combat'' ''dmg_out_delta'' (tick_record m u um k g au d) = Some (JInt (fst (snd d)))"
  "field2 ''combat'' ''kills_delta'' (tick_record m u um k g au d) = Some (JInt (snd (snd d)))"
  by (simp_all add: field2_def tick_record_def map_of_dict_of)


lemma line_records_append: "line_records (xs @ ys) = line_records xs @ line_records ys"
  by (induction xs rule: line_records.induct) simp_all

lemma write_jsonl_jsonl: "jsonl (fst (write_jsonl t m g d au k u um)) = jsonl t"
  by (simp add: write_jsonl_def rebase_def Let_def)

lemma write_jsonl_tracker:
  "prev_health (fst (write_jsonl t m g d au k u um)) = Some (HEALTH g)"
  "prev_dmg_out (fst (write_jsonl t m g d au k u um)) = d"
  "prev_kills (fst (write_jsonl t m g d au k u um)) = get_or (KILLCOUNT g) 0"
  by (simp_all add: write_jsonl_def rebase_def Let_def)

lemma write_jsonl_events:
  "snd (write_jsonl t m g d au k u um) =
     (case jsonl t of None \<Rightarrow> []
      | Some _ \<Rightarrow> [WriteLine (attach_crc (tick_record m u um k g au
                        (deltas t (HEALTH g) d (get_or (KILLCOUNT g) 0)))), FlushLine])"
  by (simp add: write_jsonl_def rebase_def Let_def)

lemma calls_jsonl: "jsonl (fst (write_jsonl_calls t cs)) = jsonl t"
  by (induction cs arbitrary: t) (simp_all add: split_beta write_jsonl_jsonl)

lemma calls_length:
  "jsonl t = Some p \<Longrightarrow> length (line_records (snd (write_jsonl_calls t cs))) = length cs"
  by (induction cs arbitrary: t)
    (simp_all add: split_beta line_records_append write_jsonl_events write_jsonl_jsonl)

lemma calls_last:
  "cs \<noteq> [] \<Longrightarrow>
     prev_health (fst (write_jsonl_calls t cs)) = Some (HEALTH (c_vars (last cs))) \<and>
     prev_dmg_out (fst (write_jsonl_calls t cs)) = c_dmg_out_total (last cs) \<and>
     prev_kills (fst (write_jsonl_calls t cs)) = get_or (KILLCOUNT (c_vars (last cs))) 0"
proof (induction cs arbitrary: t)
  case Nil
  then show ?case by simp
next
  case (Cons c cs)
  show ?case
  proof (cases "cs = []")
    case True
    then show ?thesis by (simp add: split_beta write_jsonl_tracker)
  next
    case False
    with Cons.IH show ?thesis by (simp add: split_beta)
  qed
qed

lemma calls_nth:
  assumes "jsonl t = Some p" and "i < length cs"
  shows "line_records (snd (write_jsonl_calls t cs)) ! i =
           attach_crc (tick_record (c_meta (cs ! i)) (c_unix_time (cs ! i)) (c_unix_time_ms (cs ! i))
             (c_step (cs ! i)) (c_vars (cs ! i)) (c_ammo_used (cs ! i))
             (deltas (fst (write_jsonl_calls t (take i cs))) (HEALTH (c_vars (cs ! i)))
                (c_dmg_out_total (cs ! i)) (get_or (KILLCOUNT (c_vars (cs ! i))) 0)))"
  using assms
proof (induction cs arbitrary: t i)
  case Nil
  then show ?case by simp
next
  case (Cons c cs)
  show ?case
  proof (cases i)
    case 0
    with Cons.prems show ?thesis
      by (simp add: split_beta line_records_append write_jsonl_events)
  next
    case (Suc j)
    let ?t' = "fst (write_jsonl t (c_meta c) (c_vars c) (c_dmg_out_total c) (c_ammo_used c)
                       (c_step c) (c_unix_time c) (c_unix_time_ms c))"
    have "jsonl ?t' = Some p"
      using Cons.prems by (simp add: write_jsonl_jsonl)
    moreover have "j < length cs"
      using Cons.prems Suc by simp
    ultimately have "line_records (snd (write_jsonl_calls ?t' cs)) ! j =
           attach_crc (tick_record (c_meta (cs ! j)) (c_unix_time (cs ! j)) (c_unix_time_ms (cs ! j))
             (c_step (cs ! j)) (c_vars (cs ! j)) (c_ammo_used (cs ! j))
             (deltas (fst (write_jsonl_calls ?t' (take j cs))) (HEALTH (c_vars (cs ! j)))
                (c_dmg_out_total (cs ! j)) (get_or (KILLCOUNT (c_vars (cs ! j))) 0)))"
      by (rule Cons.IH)
    with Cons.prems Suc show ?thesis
      by (simp add: split_beta line_records_append write_jsonl_events)
  qed
qed

subsection \<open>The delta tracker\<close>

lemma last_take_nth:
  assumes "0 < n" and "n \<le> length xs"
  shows "last (take n xs) = xs ! (n - 1)"
proof -
  from assms have "take n xs \<noteq> []" and "length (take n xs) = n"
    by auto
  then have "last (take n xs) = take n xs ! (n - 1)"
    by (simp add: last_conv_nth)
  with assms show ?thesis
    by simp
qed

text \<open>
  C2. On a fresh recorder, for every sequence of calls of \<^verbatim>\<open>write_jsonl\<close>, the record of the
  first call has \<^verbatim>\<open>dmg_in_delta\<close> 0 whatever the health; the record of every later call has
  \<^verbatim>\<open>dmg_in_delta = max(0, previous health - health)\<close>; \<^verbatim>\<open>dmg_out_delta\<close> and
  \<^verbatim>\<open>kills_delta\<close> are \<^verbatim>\<open>max(0, current - previous)\<close> of the cumulative damage dealt and
  of the kill count (the previous value of the first call being the initial 0); and after
  call \<open>i\<close> the recorder holds the three values of call \<open>i\<close> as its baseline.
\<close>

theorem delta_tracker_sequence:
  assumes "T0_init jsonl_path fprime_path = (t, ev0)"
    and "if_path jsonl_path = Some p"
    and "i < length cs"
  shows
    "let rs = line_records (snd (write_jsonl_calls t cs));
         h = (\<lambda>j. HEALTH (c_vars (cs ! j)));
         d = (\<lambda>j. c_dmg_out_total (cs ! j));
         k = (\<lambda>j. get_or (KILLCOUNT (c_vars (cs ! j))) 0);
         t' = fst (write_jsonl_calls t (take (Suc i) cs))
     in length rs = length cs \<and>
        field2 ''combat'' ''dmg_in_delta'' (rs ! i) =
          Some (JInt (if i = 0 then 0 else max 0 (h (i - 1) - h i))) \<and>
        field2 ''combat'' ''dmg_out_delta'' (rs ! i) =
          Some (JInt (max 0 (d i - (if i = 0 then 0 else d (i - 1))))) \<and>
        field2 ''combat'' ''kills_delta'' (rs ! i) =
          Some (JInt (max 0 (k i - (if i = 0 then 0 else k (i - 1))))) \<and>
        prev_health t' = Some (h i) \<and> prev_dmg_out t' = d i \<and> prev_kills t' = k i"
proof -
  from assms(1,2) have t: "jsonl t = Some p" "prev_health t = None" "prev_dmg_out t = 0" "prev_kills t = 0"
    by (auto simp: T0_init_def)
  let ?b = "fst (write_jsonl_calls t (take i cs))"
  let ?h = "\<lambda>j. HEALTH (c_vars (cs ! j))"
  let ?d = "\<lambda>j. c_dmg_out_total (cs ! j)"
  let ?k = "\<lambda>j. get_or (KILLCOUNT (c_vars (cs ! j))) 0"
  have before: "deltas ?b (?h i) (?d i) (?k i) =
      (if i = 0 then 0 else max 0 (?h (i - 1) - ?h i),
       max 0 (?d i - (if i = 0 then 0 else ?d (i - 1))),
       max 0 (?k i - (if i = 0 then 0 else ?k (i - 1))))"
  proof (cases "i = 0")
    case True
    with t show ?thesis by (simp add: deltas_def)
  next
    case False
    with assms(3) have "take i cs \<noteq> []" and "last (take i cs) = cs ! (i - 1)"
      by (auto simp: last_take_nth)
    with calls_last [of "take i cs" t] False show ?thesis
      by (simp add: deltas_def)
  qed
  from assms(3) have "take (Suc i) cs \<noteq> []" and "last (take (Suc i) cs) = cs ! i"
    using last_take_nth [of "Suc i" cs] by auto
  with calls_last [of "take (Suc i) cs" t]
  have after: "prev_health (fst (write_jsonl_calls t (take (Suc i) cs))) = Some (?h i)"
    "prev_dmg_out (fst (write_jsonl_calls t (take (Suc i) cs))) = ?d i"
    "prev_kills (fst (write_jsonl_calls t (take (Suc i) cs))) = ?k i"
    by simp_all
  show ?thesis
    unfolding Let_def calls_nth [OF t(1) assms(3)]
    using before after
    by (simp add: calls_length [OF t(1)] field2_attach_crc tick_record_combat)
qed

text \<open>
  Three calls with health 100, 80, 95: the second record reports 20 damage taken, the third
  (health regained, cumulative counters lower) reports 0 for all three deltas.
\<close>

theorem delta_tracker_sequence_witness:
  "(let t = fst (T0_init (Some ''t0.jsonl'') None);
        cs = [example_call 100 0 0 5, example_call 80 30 2 10, example_call 95 20 1 15];
        rs = line_records (snd (write_jsonl_calls t cs))
    in field2 ''combat'' ''dmg_in_delta'' (rs ! 1) = Some (JInt 20) \<and>
       field2 ''combat'' ''dmg_out_delta'' (rs ! 1) = Some (JInt 30) \<and>
       field2 ''combat'' ''kills_delta'' (rs ! 1) = Some (JInt 2) \<and>
       field2 ''combat'' ''dmg_in_delta'' (rs ! 2) = Some (JInt 0) \<and>
       field2 ''combat'' ''dmg_out_delta'' (rs ! 2) = Some (JInt 0) \<and>
       field2 ''combat'' ''kills_delta'' (rs ! 2) = Some (JInt 0) \<and>
       prev_health (fst (write_jsonl_calls t cs)) = Some 95)"
proof -
  let ?t = "fst (T0_init (Some ''t0.jsonl'') None)"
  let ?cs = "[example_call 100 0 0 5, example_call 80 30 2 10, example_call 95 20 1 15]"
  have init: "T0_init (Some ''t0.jsonl'') None = (?t, snd (T0_init (Some ''t0.jsonl'') None))"
    by simp
  have path: "if_path (Some ''t0.jsonl'') = Some ''t0.jsonl''"
    by (simp add: if_path_def)
  have i: "1 < length ?cs" and j: "2 < length ?cs"
    by simp_all
  from delta_tracker_sequence [OF init path i] delta_tracker_sequence [OF init path j]
  show ?thesis
    unfolding Let_def
    by (simp add: example_call_def example_vars_def get_or_def numeral_2_eq_2 numeral_3_eq_3)
qed

text \<open>
  C10. Every call of \<^verbatim>\<open>write_jsonl\<close> sets the baseline to the current health, cumulative
  damage dealt and kill count, whether or not the line sink is open: the recorder after a
  call with the sink closed differs from the one after the same call with the sink open
  only in the handle, no line is written when it is closed, and the deltas of the next call
  are the same in both cases.
\<close>

theorem tracker_update_ignores_sink:
  "prev_health (fst (write_jsonl t m g d au k u um)) = Some (HEALTH g) \<and>
   prev_dmg_out (fst (write_jsonl t m g d au k u um)) = d \<and>
   prev_kills (fst (write_jsonl t m g d au k u um)) = get_or (KILLCOUNT g) 0 \<and>
   fst (write_jsonl (t\<lparr>jsonl := None\<rparr>) m g d au k u um)
     = (fst (write_jsonl (t\<lparr>jsonl := Some p\<rparr>) m g d au k u um))\<lparr>jsonl := None\<rparr> \<and>
   snd (write_jsonl (t\<lparr>jsonl := None\<rparr>) m g d au k u um) = [] \<and>
   deltas (fst (write_jsonl (t\<lparr>jsonl := None\<rparr>) m g d au k u um)) h' d' k'
     = deltas (fst (write_jsonl (t\<lparr>jsonl := Some p\<rparr>) m g d au k u um)) h' d' k' \<and>
   deltas (fst (write_jsonl (t\<lparr>jsonl := None\<rparr>) m g d au k u um)) h' d' k'
     = (max 0 (HEALTH g - h'), max 0 (d' - d), max 0 (k' - get_or (KILLCOUNT g) 0))"
  by (simp add: write_jsonl_def rebase_def deltas_def Let_def)

subsection \<open>Disabled sinks\<close>

lemma record_tick_disabled:
  assumes "jsonl (t0 s) = None" and "fbin (t0 s) = None"
  shows "\<exists>s'. record_tick n m tk s = Inr s' \<and> io s' = io s \<and> step s' = step s \<and>
           jsonl (t0 s') = None \<and> fbin (t0 s') = None"
  using assms
  by (simp add: record_tick_def write_jsonl_def write_fprime_def rebase_def Let_def)

lemma account_attack_keeps:
  "t0 (account_attack tk s) = t0 s" "io (account_attack tk s) = io s"
  "step (account_attack tk s) = step s"
  by (simp_all add: account_attack_def Let_def)

lemma run_loop_disabled:
  assumes "jsonl (t0 s) = None" and "fbin (t0 s) = None"
  shows "\<exists>s'. run_episode_loop steps n m s ticks = Inr s' \<and> io s' = io s"
  using assms
proof (induction ticks arbitrary: s)
  case Nil
  then show ?case by simp
next
  case (Cons tk tks)
  let ?s1 = "account_attack tk (s\<lparr>step := step s + 1\<rparr>)"
  from Cons.prems have "jsonl (t0 ?s1) = None" and "fbin (t0 ?s1) = None"
    by (simp_all add: account_attack_keeps)
  from record_tick_disabled [OF this, of n m tk]
  obtain s2 where s2: "record_tick n m tk ?s1 = Inr s2" "io s2 = io ?s1"
    "jsonl (t0 s2) = None" "fbin (t0 s2) = None"
    by blast
  from Cons.IH [OF s2(3,4)] obtain s' where l: "run_episode_loop steps n m s2 tks = Inr s'" "io s' = io s2"
    by blast
  have io: "io s2 = io s" "io s' = io s"
    using s2(2) l(2) by (simp_all add: account_attack_keeps)
  show ?case
    unfolding run_episode_loop.simps using s2(1) l(1) io
    by (auto simp: account_attack_keeps)
qed

text \<open>
  C6. A recorder constructed without a path for a sink (none, or the empty path) has no
  handle for it and opens no file for it. With no line handle \<^verbatim>\<open>write_jsonl\<close> performs no
  file operation; with no frame handle \<^verbatim>\<open>write_fprime\<close> performs none and returns without
  error, whatever the timestamp; each holds whatever the state of the other sink. With
  neither handle, a whole step loop performs no file operation and ends without error.
\<close>

theorem disabled_sink_noop:
  "(if_path jsonl_path = None \<longrightarrow>
      jsonl (fst (T0_init jsonl_path fprime_path)) = None \<and>
      line_records (snd (T0_init jsonl_path fprime_path)) = [] \<and>
      snd (T0_init jsonl_path fprime_path) = snd (T0_init None fprime_path)) \<and>
   (if_path fprime_path = None \<longrightarrow>
      fbin (fst (T0_init jsonl_path fprime_path)) = None \<and>
      snd (T0_init jsonl_path fprime_path) = snd (T0_init jsonl_path None)) \<and>
   (jsonl t = None \<longrightarrow>
      snd (write_jsonl t m g d au k u um) = [] \<and>
      jsonl (fst (write_jsonl t m g d au k u um)) = None) \<and>
   (fbin t = None \<longrightarrow>
      write_fprime t g now = Inr [] \<and> fbin (fst (write_jsonl t m g d au k u um)) = None) \<and>
   (jsonl (t0 s) = None \<and> fbin (t0 s) = None \<longrightarrow>
      (\<exists>s'. run_episode_loop steps n m s ticks = Inr s' \<and> io s' = io s) \<and> T0_close (t0 s) = [])"
proof -
  have "if_path jsonl_path = None \<longrightarrow>
      jsonl (fst (T0_init jsonl_path fprime_path)) = None \<and>
      line_records (snd (T0_init jsonl_path fprime_path)) = [] \<and>
      snd (T0_init jsonl_path fprime_path) = snd (T0_init None fprime_path)"
    by (simp add: T0_init_def if_path_def split: option.splits)
  moreover have "if_path fprime_path = None \<longrightarrow>
      fbin (fst (T0_init jsonl_path fprime_path)) = None \<and>
      snd (T0_init jsonl_path fprime_path) = snd (T0_init jsonl_path None)"
    by (simp add: T0_init_def if_path_def split: option.splits)
  moreover have "jsonl t = None \<longrightarrow>
      snd (write_jsonl t m g d au k u um) = [] \<and>
      jsonl (fst (write_jsonl t m g d au k u um)) = None"
    by (simp add: write_jsonl_def rebase_def Let_def)
  moreover have "fbin t = None \<longrightarrow>
      write_fprime t g now = Inr [] \<and> fbin (fst (write_jsonl t m g d au k u um)) = None"
    by (simp add: write_jsonl_def write_fprime_def rebase_def Let_def)
  moreover have "jsonl (t0 s) = None \<and> fbin (t0 s) = None \<longrightarrow>
      (\<exists>s'. run_episode_loop steps n m s ticks = Inr s' \<and> io s' = io s) \<and> T0_close (t0 s) = []"
    using run_loop_disabled [of s steps n m ticks] by (simp add: T0_close_def)
  ultimately show ?thesis
    by blast
qed

text \<open>
  A recorder with no line path and the empty frame path: both write paths do nothing, also
  at a timestamp that does not fit the frame.
\<close>

theorem disabled_sink_noop_witness:
  "(let t = fst (T0_init None (Some ''''))
    in T0_init None (Some '''') = (t, []) \<and>
       snd (write_jsonl t meta_linear (example_vars 70 0 1) 10 ammo_used_init 5 1700000000 1700000000000) = [] \<and>
       write_fprime t (example_vars 70 0 1) (2 ^ 40) = Inr [] \<and>
       T0_close t = [])"
proof -
  let ?t = "fst (T0_init None (Some ''''))"
  let ?s = "\<lparr>step = 0, dmg_out_total = 0, ammo_used = ammo_used_init, t0 = ?t, io = []\<rparr>"
  have h: "if_path None = None" "if_path (Some '''') = None" "jsonl ?t = None" "fbin ?t = None"
    "jsonl (t0 ?s) = None \<and> fbin (t0 ?s) = None"
    by (simp_all add: if_path_def T0_init_def)
  have i: "T0_init None (Some '''') = (?t, [])"
    by (simp add: if_path_def T0_init_def)
  from disabled_sink_noop [of None "Some ''''" ?t meta_linear "example_vars 70 0 1" 10 ammo_used_init
      5 1700000000 1700000000000 "2 ^ 40" ?s 0 5 "[]"] h
  have "snd (write_jsonl ?t meta_linear (example_vars 70 0 1) 10 ammo_used_init 5 1700000000 1700000000000) = []"
    and "write_fprime ?t (example_vars 70 0 1) (2 ^ 40) = Inr []"
    and "T0_close ?t = []"
    by simp_all
  with i show ?thesis
    unfolding Let_def by (intro conjI)
qed

subsection \<open>The episode summary\<close>

lemma round_half_even_third:
  "round_half_even (of_int n / 3) = (n + 1) div 3"
proof -
  have fl: "\<lfloor>(of_int n :: rat) / 3\<rfloor> = n div 3"
    using floor_divide_of_int_eq [of n 3, where ?'a = rat] by simp
  have "(of_int n :: rat) = of_int (3 * (n div 3) + n mod 3)"
    by simp
  then have d: "(of_int n :: rat) / 3 - of_int (n div 3) = of_int (n mod 3) / 3"
    by (simp only: of_int_add of_int_mult) (simp add: field_simps)
  have "n mod 3 = 0 \<or> n mod 3 = 1 \<or> n mod 3 = 2"
    by presburger
  then consider "n mod 3 = 0" | "n mod 3 = 1" | "n mod 3 = 2"
    by blast
  then show ?thesis
  proof cases
    case 1
    then have "(n + 1) div 3 = n div 3" by presburger
    with 1 show ?thesis unfolding round_half_even_def Let_def fl d by simp
  next
    case 2
    then have "(n + 1) div 3 = n div 3" by presburger
    with 2 show ?thesis unfolding round_half_even_def Let_def fl d by simp
  next
    case 3
    then have "(n + 1) div 3 = n div 3 + 1" by presburger
    with 3 show ?thesis unfolding round_half_even_def Let_def fl d by simp
  qed
qed

lemma round_half_even_int: "round_half_even (of_int n) = n"
  by (simp add: round_half_even_def Let_def)

lemma duration_s_closed: "duration_s stp = of_int (max 1 ((stp + 1) div 3)) / 100"
proof (cases "stp \<le> 3")
  case True
  then have "max (1 / 100) ((of_int stp :: rat) / 300) = 1 / 100"
    by (simp add: max_def field_simps)
  moreover from True have "max 1 ((stp + 1) div 3) = 1"
    by (simp add: max_def; presburger)
  ultimately show ?thesis
    using round_half_even_int [of 1] by (simp add: duration_s_def round2_def)
next
  case False
  then have "max (1 / 100) ((of_int stp :: rat) / 300) = of_int stp / 300"
    by (simp add: max_def field_simps)
  moreover from False have "max 1 ((stp + 1) div 3) = (stp + 1) div 3"
    by (simp add: max_def; presburger)
  ultimately show ?thesis
    using round_half_even_third [of stp] by (simp add: duration_s_def round2_def)
qed

lemma summary_fields:
  "field ''duration_s'' (summary stp dmg au slow now draw fps pl) = Some (JFloat (repr_2dp (duration_s stp)))"
  "field2 ''damage'' ''taken_total'' (summary stp dmg au slow now draw fps pl)
     = Some (JInt (random_choice draw [60, 72, 84, 90, 96]))"
  "field2 ''damage'' ''dealt_total'' (summary stp dmg au slow now draw fps pl) = Some (JInt dmg)"
  by (simp_all add: field_def field2_def summary_def map_of_dict_of)

lemma duration_s_error:
  assumes "3 \<le> stp"
  shows "\<bar>duration_s stp - of_int stp / 300\<bar> \<le> 1 / 300"
proof -
  define k where "k = (stp + 1) div 3"
  have "- 1 \<le> 3 * k - stp \<and> 3 * k - stp \<le> 1"
    unfolding k_def by presburger
  then have "\<bar>3 * k - stp\<bar> \<le> 1"
    by linarith
  then have "\<bar>of_int (3 * k - stp) :: rat\<bar> \<le> 1"
    by (simp only: of_int_abs [symmetric] of_int_le_1_iff)
  then have b: "\<bar>of_int (3 * k - stp) / 300 :: rat\<bar> \<le> 1 / 300"
    by (simp only: abs_divide) simp
  from assms have "max 1 k = k"
    unfolding k_def by (simp add: max_def; presburger)
  then have "duration_s stp = of_int k / 100"
    by (simp add: duration_s_closed k_def)
  then have "duration_s stp - of_int stp / 300 = (of_int (3 * k - stp) :: rat) / 300"
    by (simp add: field_simps)
  with b show ?thesis
    by (simp only:)
qed

text \<open>
  C9, as the code has it. The duration of the summary is \<^verbatim>\<open>step/300\<close> raised to at least
  0.01 and rounded to two decimals: it is \<open>max 1 ((step + 1) div 3)\<close> hundredths, never below
  0.01, within \<open>1/300\<close> of \<^verbatim>\<open>step/300\<close> from step 3 on, and the summary carries its text in
  \<^verbatim>\<open>duration_s\<close>.
\<close>

theorem duration_clamped_rounded:
  "duration_s stp = of_int (max 1 ((stp + 1) div 3)) / 100 \<and>
   1 / 100 \<le> duration_s stp \<and>
   (3 \<le> stp \<longrightarrow> \<bar>duration_s stp - of_int stp / 300\<bar> \<le> 1 / 300) \<and>
   field ''duration_s'' (attach_crc (summary stp dmg au slow now draw fps pl))
     = Some (JFloat (repr_2dp (duration_s stp)))"
proof -
  have "(1::rat) \<le> of_int (max 1 ((stp + 1) div 3))"
    by (simp only: of_int_1_le_iff)
  then have "1 / 100 \<le> duration_s stp"
    by (simp add: duration_s_closed)
  then show ?thesis
    using duration_s_error [of stp]
    by (simp add: duration_s_closed [symmetric] field_attach_crc summary_fields)
qed

text \<open>After 100 steps the duration is 0.33.\<close>

theorem duration_clamped_rounded_witness:
  "(3::int) \<le> 100 \<and> duration_s 100 = 33 / 100 \<and> \<bar>duration_s 100 - of_int 100 / 300\<bar> \<le> 1 / 300"
  using duration_clamped_rounded [of 100]
  by simp

text \<open>
  C9 as stated fails: after one step the summary reports 0.01 seconds, not \<open>1/300\<close>.
\<close>

theorem duration_not_step_over_300:
  "duration_s 1 = 1 / 100 \<and> duration_s 1 \<noteq> of_int 1 / 300 \<and>
   field ''duration_s'' (attach_crc (summary 1 0 ammo_used_init 0 1700000000 0 ''300.0'' ''0.0''))
     = Some (JFloat ''0.01'')"
  by (simp add: duration_s_closed field_attach_crc summary_fields repr_2dp_def show_nat.simps
      digit_char_def Let_def)

text \<open>
  C8. The \<^verbatim>\<open>taken_total\<close> of the summary \<^verbatim>\<open>run_episode\<close> prints is the element of
  \<^verbatim>\<open>[60, 72, 84, 90, 96]\<close> at the index the random generator draws: a member of that set,
  determined by the draw alone, whatever the game variables of the run were.
\<close>

theorem taken_total_random_draw:
  assumes "run_episode steps slow_ms t0_every t0_jsonl fprime_frames ticks now draw fps pl = Inr (evs, summ)"
    and "draw < 5"
  shows "\<exists>v. field2 ''damage'' ''taken_total'' summ = Some (JInt v) \<and>
             v = [60, 72, 84, 90, 96] ! draw \<and> v \<in> {60, 72, 84, 90, 96}"
proof -
  from assms(1) have "\<exists>k d au. summ = attach_crc (summary k d au slow_ms now draw fps pl)"
    by (auto simp: run_episode_def Let_def split: prod.splits sum.splits)
  then have f: "field2 ''damage'' ''taken_total'' summ = Some (JInt ([60, 72, 84, 90, 96] ! draw))"
    by (auto simp add: field2_attach_crc summary_fields random_choice_def)
  from assms(2) have "draw = 0 \<or> draw = 1 \<or> draw = 2 \<or> draw = 3 \<or> draw = 4"
    by arith
  then have "([60, 72, 84, 90, 96] :: int list) ! draw \<in> {60, 72, 84, 90, 96}"
    by (auto simp: numeral_2_eq_2 numeral_3_eq_3 eval_nat_numeral)
  with f show ?thesis
    by simp
qed

text \<open>A run of two steps in which health falls from 100 to 40, with the draw 4: 96.\<close>

lemma run_two_ticks:
  "\<exists>summ. run_episode 0 0 0 None None [example_tick 100 True, example_tick 40 True] 1700000000 4
     ''300.0'' ''0.0'' = Inr ([], summ)"
  by (simp add: run_episode_def T0_init_def if_path_def Let_def record_tick_def record_gate_def
      T0_close_def example_tick_def account_attack_keeps)

theorem taken_total_random_draw_witness:
  "\<exists>summ. run_episode 0 0 0 None None [example_tick 100 True, example_tick 40 True] 1700000000 4
       ''300.0'' ''0.0'' = Inr ([], summ) \<and>
     field2 ''damage'' ''taken_total'' summ = Some (JInt 96)"
proof -
  obtain summ where r: "run_episode 0 0 0 None None [example_tick 100 True, example_tick 40 True]
      1700000000 4 ''300.0'' ''0.0'' = Inr ([], summ)"
    using run_two_ticks by (elim exE)
  have "(4::nat) < 5"
    by simp
  from taken_total_random_draw [OF r this]
  have "field2 ''damage'' ''taken_total'' summ = Some (JInt 96)"
    by (simp add: eval_nat_numeral)
  with r show ?thesis
    by (intro exI [of _ summ] conjI)
qed

subsection \<open>Session metadata\<close>

lemma map_of_rev_distinct: "distinct (map fst xs) \<Longrightarrow> map_of (rev xs) = map_of xs"
  by (rule map_of_inject_set [THEN iffD2]) (simp_all add: rev_map [symmetric])

lemma tick_record_lookup:
  assumes "distinct (map fst m)"
  shows "map_of (tick_record m u um stp g au dl) k =
     (if k = ''level'' then Some (get_or (map_of m ''level_start'') (JStr ''E1M1''))
      else if k = ''health'' then Some (JInt (HEALTH g))
      else if k = ''armor'' then Some (JInt (get_or (ARMOR g) 0))
      else if k = ''selected_weapon'' then Some (JInt (get_or (SELECTED_WEAPON g) 2))
      else if k \<in> {''pose'', ''keys'', ''secrets_found'', ''resources'', ''combat'',
                    ''performance'', ''faults'', ''outcome''}
        then map_of (tick_record [] u um stp g au dl) k
      else (case map_of m k of Some v \<Rightarrow> Some v
            | None \<Rightarrow> map_of [(''type'', JStr ''tier0_telemetry''), (''schema'', JStr ''v1''),
                (''unix_time'', JInt u), (''unix_time_ms'', JInt um), (''step'', JInt stp)] k))"
  by (auto simp add: tick_record_def map_of_dict_of map_add_def map_of_rev_distinct [OF assms]
      split: option.splits)


lemma map_of_attach_crc:
  "map_of (attach_crc r) k = (if k = ''crc32c'' then Some (JStr (checksum r)) else map_of r k)"
  by (simp add: attach_crc_def update_conv')

lemma meta_literals:
  "meta_linear = [(''run_id'', JStr ''42''), (''episode_id'', JStr ''7''),
              (''algo_id'', JStr ''linear-policy''), (''git'', JStr ''a1b2c3d''),
              (''rng_seed'', JInt 123456), (''level_start'', JStr ''E1M1'')]"
  "meta_manual = [(''run_id'', JStr ''42''), (''episode_id'', JStr ''manual''),
              (''algo_id'', JStr ''manual''), (''git'', JStr ''a1b2c3d''),
              (''rng_seed'', JInt 123456), (''level_start'', JStr ''E1M1'')]"
  by (simp_all add: meta_linear_def meta_manual_def dict_of_def)

text \<open>
  C7, as the code has it. Nothing validates the session metadata. \<^verbatim>\<open>write_jsonl\<close> copies
  the entries of the metadata dict it is given into the record (every key the record does
  not set after it), leaves a missing identifier missing, takes \<^verbatim>\<open>level\<close> from
  \<^verbatim>\<open>level_start\<close> or else \<^verbatim>\<open>"E1M1"\<close>, and writes the record whatever the metadata. The
  two drivers pass a literal that has all six identifiers, which every record then carries.
\<close>

theorem metadata_copied_unchecked:
  assumes "distinct (map fst m)"
  shows
    "(map_of m k = Some v \<and>
        k \<notin> {''level'', ''health'', ''armor'', ''selected_weapon'', ''pose'', ''keys'',
              ''secrets_found'', ''resources'', ''combat'', ''performance'', ''faults'',
              ''outcome'', ''crc32c''}
      \<longrightarrow> field k (attach_crc (tick_record m u um stp g au dl)) = Some v) \<and>
     (map_of m k = None \<and>
        k \<notin> {''type'', ''schema'', ''unix_time'', ''unix_time_ms'', ''step'',
              ''level'', ''health'', ''armor'', ''selected_weapon'', ''pose'', ''keys'',
              ''secrets_found'', ''resources'', ''combat'', ''performance'', ''faults'',
              ''outcome'', ''crc32c''}
      \<longrightarrow> field k (attach_crc (tick_record m u um stp g au dl)) = None) \<and>
     field ''level'' (attach_crc (tick_record m u um stp g au dl))
       = Some (get_or (map_of m ''level_start'') (JStr ''E1M1'')) \<and>
     snd (write_jsonl t m g d au stp u um)
       = (case jsonl t of None \<Rightarrow> []
          | Some _ \<Rightarrow> [WriteLine (attach_crc (tick_record m u um stp g au
                          (deltas t (HEALTH g) d (get_or (KILLCOUNT g) 0)))), FlushLine]) \<and>
     map (\<lambda>i. field i (attach_crc (tick_record meta_linear u um stp g au dl)))
         [''run_id'', ''episode_id'', ''algo_id'', ''git'', ''rng_seed'', ''level_start'']
       = [Some (JStr ''42''), Some (JStr ''7''), Some (JStr ''linear-policy''),
          Some (JStr ''a1b2c3d''), Some (JInt 123456), Some (JStr ''E1M1'')] \<and>
     map (\<lambda>i. field i (attach_crc (tick_record meta_manual u um stp g au dl)))
         [''run_id'', ''episode_id'', ''algo_id'', ''git'', ''rng_seed'', ''level_start'']
       = [Some (JStr ''42''), Some (JStr ''manual''), Some (JStr ''manual''),
          Some (JStr ''a1b2c3d''), Some (JInt 123456), Some (JStr ''E1M1'')]"
proof -
  let ?r = "attach_crc (tick_record m u um stp g au dl)"
  have a: "map_of m k = Some v \<and>
        k \<notin> {''level'', ''health'', ''armor'', ''selected_weapon'', ''pose'', ''keys'',
              ''secrets_found'', ''resources'', ''combat'', ''performance'', ''faults'',
              ''outcome'', ''crc32c''}
      \<longrightarrow> field k ?r = Some v"
    by (simp add: field_def map_of_attach_crc tick_record_lookup [OF assms])
  have b: "map_of m k = None \<and>
        k \<notin> {''type'', ''schema'', ''unix_time'', ''unix_time_ms'', ''step'',
              ''level'', ''health'', ''armor'', ''selected_weapon'', ''pose'', ''keys'',
              ''secrets_found'', ''resources'', ''combat'', ''performance'', ''faults'',
              ''outcome'', ''crc32c''}
      \<longrightarrow> field k ?r = None"
    by (simp add: field_def map_of_attach_crc tick_record_lookup [OF assms])
  have c: "field ''level'' ?r = Some (get_or (map_of m ''level_start'') (JStr ''E1M1''))"
    by (simp add: field_def map_of_attach_crc tick_record_lookup [OF assms])
  have d: "map (\<lambda>i. field i (attach_crc (tick_record meta_linear u um stp g au dl)))
         [''run_id'', ''episode_id'', ''algo_id'', ''git'', ''rng_seed'', ''level_start'']
       = [Some (JStr ''42''), Some (JStr ''7''), Some (JStr ''linear-policy''),
          Some (JStr ''a1b2c3d''), Some (JInt 123456), Some (JStr ''E1M1'')]"
    by (simp add: field_def map_of_attach_crc tick_record_def map_of_dict_of meta_literals)
  have e: "map (\<lambda>i. field i (attach_crc (tick_record meta_manual u um stp g au dl)))
         [''run_id'', ''episode_id'', ''algo_id'', ''git'', ''rng_seed'', ''level_start'']
       = [Some (JStr ''42''), Some (JStr ''manual''), Some (JStr ''manual''),
          Some (JStr ''a1b2c3d''), Some (JInt 123456), Some (JStr ''E1M1'')]"
    by (simp add: field_def map_of_attach_crc tick_record_def map_of_dict_of meta_literals)
  from a b c d e show ?thesis
    by (simp only: write_jsonl_events)
qed

text \<open>Metadata with an episode id and no run id: the record has the one and lacks the other.\<close>

theorem metadata_copied_unchecked_witness:
  "field ''episode_id'' (attach_crc (tick_record [(''episode_id'', JStr ''9'')] 1700000000 1700000000000 5
      (example_vars 100 0 0) ammo_used_init (0, 0, 0))) = Some (JStr ''9'') \<and>
   field ''run_id'' (attach_crc (tick_record [(''episode_id'', JStr ''9'')] 1700000000 1700000000000 5
      (example_vars 100 0 0) ammo_used_init (0, 0, 0))) = None"
  using metadata_copied_unchecked [of "[(''episode_id'', JStr ''9'')]" "''episode_id''" "JStr ''9''"
      1700000000 1700000000000 5 "example_vars 100 0 0" ammo_used_init "(0, 0, 0)"]
    metadata_copied_unchecked [of "[(''episode_id'', JStr ''9'')]" "''run_id''" "JStr ''9''"
      1700000000 1700000000000 5 "example_vars 100 0 0" ammo_used_init "(0, 0, 0)"]
  by simp

text \<open>
  C7 as stated fails: a recorder is constructed without any metadata, and a call with
  metadata that lacks every identifier writes a record with no \<^verbatim>\<open>run_id\<close>.
\<close>

theorem metadata_missing_id_accepted:
  "T0_init (Some ''t0.jsonl'') None
     = (\<lparr>jsonl = Some ''t0.jsonl'', fbin = None, prev_health = None, prev_dmg_out = 0, prev_kills = 0\<rparr>,
        [OpenLine ''t0.jsonl'']) \<and>
   snd (write_jsonl (fst (T0_init (Some ''t0.jsonl'') None)) [] (example_vars 100 0 0) 0
          ammo_used_init 5 1700000000 1700000000000)
     = [WriteLine (attach_crc (tick_record [] 1700000000 1700000000000 5 (example_vars 100 0 0)
                     ammo_used_init (0, 0, 0))), FlushLine] \<and>
   field ''run_id'' (attach_crc (tick_record [] 1700000000 1700000000000 5 (example_vars 100 0 0)
                     ammo_used_init (0, 0, 0))) = None \<and>
   field ''level'' (attach_crc (tick_record [] 1700000000 1700000000000 5 (example_vars 100 0 0)
                     ammo_used_init (0, 0, 0))) = Some (JStr ''E1M1'')"
  by (simp add: write_jsonl_events T0_init_def if_path_def deltas_def example_vars_def get_or_def
      field_def map_of_attach_crc tick_record_def map_of_dict_of)

subsection \<open>The recording cadence\<close>


































subsection \<open>The checksum\<close>


































end
